theory Spec2Isabelle
  imports Main "HOL-Library.Word"
begin

section \<open>Levels, colours and the sequencer states\<close>

text \<open>
  A digital level is a \<open>bool\<close>: \<open>HIGH\<close> is \<open>True\<close> and \<open>LOW\<close> is \<open>False\<close>, as in the
  Arduino core. A colour is the argument triple handed to \<open>ledStrip.Color(r, g, b)\<close>; the
  strip shows one colour on all of its pixels (\<open>updateLEDs\<close> writes every pixel), so the
  strip is one colour value.
\<close>

abbreviation HIGH :: bool where "HIGH \<equiv> True"
abbreviation LOW :: bool where "LOW \<equiv> False"

type_synonym colour = "nat \<times> nat \<times> nat"

datatype AirlockState =
    ST_IDLE
  | ST_FRONT_ENTER
  | ST_MIDDLE_OCCUPIED
  | ST_BACK_EXIT
  | ST_BACK_ENTER
  | ST_FRONT_EXIT
  | ST_SAFETY_LOCK

text \<open>
  The levels of the seven input pins at one moment: what \<open>digitalRead\<close> returns then.
\<close>

record pins =
  PRESENCE_FRONT :: bool
  PRESENCE_MIDDLE :: bool
  PRESENCE_BACK :: bool
  GATE_SAFETY_A :: bool
  GATE_SAFETY_B :: bool
  GATE_MOVING_A :: bool
  GATE_MOVING_B :: bool

text \<open>
  The mutable state of the sketch: the global \<open>currentState\<close>, the levels last written
  to the two gate request pins, and the colour on the strip.
\<close>

record controller =
  currentState :: AirlockState
  GATE_REQUEST_A :: bool
  GATE_REQUEST_B :: bool
  led :: colour

section \<open>The level-sensing sketch\<close>

text \<open>
  \<open>operateGate(gate, open)\<close>: returns early when the gate's safety pin reads \<open>LOW\<close>,
  whatever \<open>open\<close> is. The parameter \<open>open\<close> is written \<open>opn\<close>, and \<open>setup\<close> below
  \<open>setup_board\<close>, since both words are reserved here.
\<close>

definition operateGate :: "8 word \<Rightarrow> bool \<Rightarrow> pins \<Rightarrow> 'a controller_scheme \<Rightarrow> 'a controller_scheme" where
  "operateGate gate opn p c =
     (if gate = 0 then
        (if GATE_SAFETY_A p = LOW then c else c\<lparr>GATE_REQUEST_A := opn\<rparr>)
      else
        (if GATE_SAFETY_B p = LOW then c else c\<lparr>GATE_REQUEST_B := opn\<rparr>))"

definition updateLEDs :: "colour \<Rightarrow> 'a controller_scheme \<Rightarrow> 'a controller_scheme" where
  "updateLEDs col c = c\<lparr>led := col\<rparr>"

text \<open>
  \<open>setup()\<close> writes \<open>LOW\<close> to both request pins and shows green. The state before it
  is the power-on state: \<open>currentState\<close> is \<open>ST_IDLE\<close> by its global initialiser, the
  outputs and the strip are whatever they were.
\<close>

definition power_on :: "bool \<Rightarrow> bool \<Rightarrow> colour \<Rightarrow> controller" where
  "power_on x y col =
     \<lparr>currentState = ST_IDLE, GATE_REQUEST_A = x, GATE_REQUEST_B = y, led = col\<rparr>"

definition setup_board :: "'a controller_scheme \<Rightarrow> 'a controller_scheme" where
  "setup_board c = updateLEDs (0, 255, 0) (c\<lparr>GATE_REQUEST_A := LOW, GATE_REQUEST_B := LOW\<rparr>)"

text \<open>
  \<open>loop()\<close> of the level-sensing sketch calls \<open>digitalRead\<close> on the safety pins more
  than once in a pass, and the levels may change in between. A pass therefore gets the
  pin levels at each of its reading moments:
  \<^item> \<open>first_reads\<close>: the reads at the top of \<open>loop()\<close> (the three presence pins and the
    safety test that opens the pass);
  \<^item> \<open>gate_A_reads\<close>, \<open>gate_B_reads\<close>: the read inside the call of \<open>operateGate\<close> for
    gate A and for gate B (no pass calls it twice for one gate);
  \<^item> \<open>later_reads\<close>: the reads further down in \<open>loop()\<close>: the second safety test of the
    safety branch, the moving pins in the \<open>switch\<close>, and the safety test of
    \<open>ST_SAFETY_LOCK\<close>.
  On every path each pin is read at most once from each of the four, so every
  \<open>digitalRead\<close> of a pass has a level of its own.
\<close>

record reads =
  first_reads :: pins
  gate_A_reads :: pins
  gate_B_reads :: pins
  later_reads :: pins

text \<open>One pass of \<open>loop()\<close>. The final \<open>delay(100)\<close> has no effect on the state.\<close>

definition loop :: "reads \<Rightarrow> controller \<Rightarrow> controller" where
  "loop r c =
    (let front = (PRESENCE_FRONT (first_reads r) = LOW);
         middle = (PRESENCE_MIDDLE (first_reads r) = LOW);
         back = (PRESENCE_BACK (first_reads r) = LOW)
     in
     if GATE_SAFETY_A (first_reads r) = LOW \<or> GATE_SAFETY_B (first_reads r) = LOW then
       (let c1 = operateGate 0 False (gate_A_reads r) c;
            c2 = operateGate 1 False (gate_B_reads r) c1;
            c3 = (if middle then c2\<lparr>currentState := ST_MIDDLE_OCCUPIED\<rparr>
                  else if GATE_SAFETY_A (later_reads r) = LOW \<or> GATE_SAFETY_B (later_reads r) = LOW
                    then c2\<lparr>currentState := ST_SAFETY_LOCK\<rparr>
                  else c2\<lparr>currentState := ST_IDLE\<rparr>)
        in updateLEDs (255, 0, 0) c3)
     else
       (case currentState c of
          ST_IDLE \<Rightarrow>
            if front \<and> \<not> middle \<and> \<not> back then
              updateLEDs (0, 0, 255)
                ((operateGate 0 True (gate_A_reads r) c)\<lparr>currentState := ST_FRONT_ENTER\<rparr>)
            else if back \<and> \<not> middle \<and> \<not> front then
              updateLEDs (255, 165, 0)
                ((operateGate 1 True (gate_B_reads r) c)\<lparr>currentState := ST_BACK_ENTER\<rparr>)
            else if front \<and> back then
              updateLEDs (128, 0, 128)
                ((operateGate 0 True (gate_A_reads r) c)\<lparr>currentState := ST_FRONT_ENTER\<rparr>)
            else c
        | ST_FRONT_ENTER \<Rightarrow>
            if GATE_MOVING_A (later_reads r) = LOW then
              (if middle then
                 updateLEDs (255, 255, 0)
                   ((operateGate 0 False (gate_A_reads r) c)\<lparr>currentState := ST_MIDDLE_OCCUPIED\<rparr>)
               else c)
            else c
        | ST_MIDDLE_OCCUPIED \<Rightarrow>
            if GATE_MOVING_A (later_reads r) = HIGH then
              updateLEDs (128, 0, 128)
                ((operateGate 1 True (gate_B_reads r) c)\<lparr>currentState := ST_BACK_EXIT\<rparr>)
            else c
        | ST_BACK_EXIT \<Rightarrow>
            if GATE_MOVING_B (later_reads r) = LOW then
              (if \<not> back then
                 updateLEDs (0, 255, 0)
                   ((operateGate 1 False (gate_B_reads r) c)\<lparr>currentState := ST_IDLE\<rparr>)
               else c)
            else c
        | ST_BACK_ENTER \<Rightarrow> c
        | ST_FRONT_EXIT \<Rightarrow> c
        | ST_SAFETY_LOCK \<Rightarrow>
            if GATE_SAFETY_A (later_reads r) = HIGH \<and> GATE_SAFETY_B (later_reads r) = HIGH then
              updateLEDs (0, 255, 0) (c\<lparr>currentState := ST_IDLE\<rparr>)
            else c))"

text \<open>
  A pass during which the pins do not change reads the same levels at every moment. The
  board after \<open>setup()\<close>, and a run of such passes over a list of pin levels.
\<close>

definition steady :: "pins \<Rightarrow> reads" where
  "steady p = \<lparr>first_reads = p, gate_A_reads = p, gate_B_reads = p, later_reads = p\<rparr>"

definition boot :: controller where
  "boot = setup_board (power_on LOW LOW (0, 0, 0))"

definition run :: "pins list \<Rightarrow> controller \<Rightarrow> controller" where
  "run ps c = fold (\<lambda>p. loop (steady p)) ps c"

section \<open>The edge-toggled sketch (Simulation)\<close>

text \<open>
  The simulation sketch keeps two global arrays of seven flags, \<open>lastb\<close> and \<open>b\<close>, both
  initialised to \<open>HIGH\<close>. Index 0 is the front presence pin, 1 the safety pin of gate A,
  2 the middle presence pin, 3 the safety pin of gate B, 4 the back presence pin, 5 and 6
  the moving pins of gates A and B. Its state extends the controller state by the arrays.
\<close>

record sim = controller +
  lastb :: "bool list"
  b :: "bool list"

definition operateGate_sim :: "8 word \<Rightarrow> bool \<Rightarrow> sim \<Rightarrow> sim" where
  "operateGate_sim gate opn s =
     (if gate = 0 then
        (if \<not> b s ! 1 then s else s\<lparr>GATE_REQUEST_A := opn\<rparr>)
      else
        (if \<not> b s ! 3 then s else s\<lparr>GATE_REQUEST_B := opn\<rparr>))"

definition power_on_sim :: "bool \<Rightarrow> bool \<Rightarrow> colour \<Rightarrow> sim" where
  "power_on_sim x y col =
     \<lparr>currentState = ST_IDLE, GATE_REQUEST_A = x, GATE_REQUEST_B = y, led = col,
      lastb = [HIGH, HIGH, HIGH, HIGH, HIGH, HIGH, HIGH],
      b = [HIGH, HIGH, HIGH, HIGH, HIGH, HIGH, HIGH]\<rparr>"

text \<open>
  The array \<open>currentb\<close> read at the top of \<open>loop()\<close>, in the source's order. This is the
  only place where the simulation sketch calls \<open>digitalRead\<close>: one read per pin and pass.
\<close>

definition currentb :: "pins \<Rightarrow> bool list" where
  "currentb p =
     [PRESENCE_FRONT p, GATE_SAFETY_A p, PRESENCE_MIDDLE p, GATE_SAFETY_B p,
      PRESENCE_BACK p, GATE_MOVING_A p, GATE_MOVING_B p]"

text \<open>
  The body of the \<open>for\<close> loop at index \<open>i\<close>: a falling edge flips \<open>b[i]\<close>, and
  \<open>lastb[i]\<close> takes the current level. The source indexes the arrays with 0 to 6 only,
  all below their size 7, so no access is out of range.
\<close>

definition toggle_step :: "bool list \<Rightarrow> nat \<Rightarrow> sim \<Rightarrow> sim" where
  "toggle_step cur i s =
     (let s1 = (if lastb s ! i = HIGH \<and> cur ! i = LOW
                then s\<lparr>b := (b s)[i := \<not> b s ! i]\<rparr> else s)
      in s1\<lparr>lastb := (lastb s1)[i := cur ! i]\<rparr>)"

definition toggle_inputs :: "pins \<Rightarrow> sim \<Rightarrow> sim" where
  "toggle_inputs p s = fold (toggle_step (currentb p)) [0, 1, 2, 3, 4, 5, 6] s"

text \<open>
  One pass of the simulation's \<open>loop()\<close>. Serial printing and the two delays do not
  change the state.
\<close>

definition loop_sim :: "pins \<Rightarrow> sim \<Rightarrow> sim" where
  "loop_sim p s0 =
    (let s = toggle_inputs p s0;
         front = (\<not> b s ! 0);
         middle = (\<not> b s ! 2);
         back = (\<not> b s ! 4)
     in
     if b s ! 1 = LOW \<or> b s ! 3 = LOW then
       (let s1 = operateGate_sim 0 False s;
            s2 = operateGate_sim 1 False s1;
            s3 = (if \<not> b s2 ! 2 then s2\<lparr>currentState := ST_MIDDLE_OCCUPIED\<rparr>
                  else if b s2 ! 1 = LOW \<or> b s2 ! 3 = LOW
                    then s2\<lparr>currentState := ST_SAFETY_LOCK\<rparr>
                  else s2\<lparr>currentState := ST_IDLE\<rparr>)
        in updateLEDs (255, 0, 0) s3)
     else
       (case currentState s of
          ST_IDLE \<Rightarrow>
            if front \<and> back then
              updateLEDs (128, 0, 128) ((operateGate_sim 0 True s)\<lparr>currentState := ST_FRONT_ENTER\<rparr>)
            else if back \<and> \<not> middle \<and> \<not> front then
              updateLEDs (255, 165, 0) ((operateGate_sim 1 True s)\<lparr>currentState := ST_BACK_ENTER\<rparr>)
            else if front \<and> \<not> middle \<and> \<not> back then
              updateLEDs (0, 0, 255) ((operateGate_sim 0 True s)\<lparr>currentState := ST_FRONT_ENTER\<rparr>)
            else s
        | ST_FRONT_ENTER \<Rightarrow>
            if \<not> b s ! 5 then
              (if middle then
                 updateLEDs (255, 255, 0)
                   ((operateGate_sim 0 False s)\<lparr>currentState := ST_MIDDLE_OCCUPIED\<rparr>)
               else s)
            else s
        | ST_MIDDLE_OCCUPIED \<Rightarrow>
            if b s ! 5 then
              updateLEDs (128, 0, 128) ((operateGate_sim 1 True s)\<lparr>currentState := ST_BACK_EXIT\<rparr>)
            else s
        | ST_BACK_EXIT \<Rightarrow>
            if \<not> b s ! 6 then
              (if back then
                 updateLEDs (0, 255, 0) ((operateGate_sim 1 False s)\<lparr>currentState := ST_IDLE\<rparr>)
               else s)
            else s
        | ST_BACK_ENTER \<Rightarrow> s
        | ST_FRONT_EXIT \<Rightarrow> s
        | ST_SAFETY_LOCK \<Rightarrow>
            if b s ! 1 \<and> b s ! 3 then
              updateLEDs (0, 255, 0) (s\<lparr>currentState := ST_IDLE\<rparr>)
            else s))"

definition boot_sim :: sim where
  "boot_sim = setup_board (power_on_sim LOW LOW (0, 0, 0))"

definition run_sim :: "pins list \<Rightarrow> sim \<Rightarrow> sim" where
  "run_sim ps s = fold loop_sim ps s"

section \<open>Inputs used in the traces, and the indicator colours\<close>

text \<open>
  Two pin levels from which the traces below are built by field updates: every pin
  \<open>HIGH\<close> (zones free, no obstruction, both moving pins \<open>HIGH\<close>), and the same with both
  moving pins \<open>LOW\<close>.
\<close>

definition all_high :: pins where
  "all_high = \<lparr>PRESENCE_FRONT = HIGH, PRESENCE_MIDDLE = HIGH, PRESENCE_BACK = HIGH,
     GATE_SAFETY_A = HIGH, GATE_SAFETY_B = HIGH, GATE_MOVING_A = HIGH, GATE_MOVING_B = HIGH\<rparr>"

definition settled :: pins where
  "settled = all_high\<lparr>GATE_MOVING_A := LOW, GATE_MOVING_B := LOW\<rparr>"

text \<open>
  The array \<open>b\<close> as a pass of the simulation's \<open>loop()\<close> sees it, after its \<open>for\<close>
  loop: these flags are that sketch's sensor snapshot.
\<close>

definition flags :: "pins \<Rightarrow> sim \<Rightarrow> bool list" where
  "flags p s = b (toggle_inputs p s)"






text \<open>
  The gate outputs that each state's entry leaves behind when every close request is
  carried out: the invariant of the sequencing, used to locate where exclusion is lost.
\<close>

definition gates_as_state :: "'a controller_scheme \<Rightarrow> bool" where
  "gates_as_state c =
     (case currentState c of
        ST_IDLE \<Rightarrow> GATE_REQUEST_A c = LOW \<and> GATE_REQUEST_B c = LOW
      | ST_FRONT_ENTER \<Rightarrow> GATE_REQUEST_B c = LOW
      | ST_MIDDLE_OCCUPIED \<Rightarrow> GATE_REQUEST_A c = LOW \<and> GATE_REQUEST_B c = LOW
      | ST_BACK_EXIT \<Rightarrow> GATE_REQUEST_A c = LOW
      | ST_BACK_ENTER \<Rightarrow> GATE_REQUEST_A c = LOW
      | ST_FRONT_EXIT \<Rightarrow> GATE_REQUEST_B c = LOW
      | ST_SAFETY_LOCK \<Rightarrow> GATE_REQUEST_A c = LOW \<and> GATE_REQUEST_B c = LOW)"

section \<open>Basic facts\<close>

lemmas sketch_defs =
  loop_def operateGate_def updateLEDs_def loop_sim_def operateGate_sim_def Let_def

lemmas input_defs =
  all_high_def settled_def boot_def boot_sim_def power_on_def power_on_sim_def steady_def
  setup_board_def run_def run_sim_def toggle_inputs_def toggle_step_def currentb_def flags_def

text \<open>The \<open>for\<close> loop over the input arrays touches neither the state nor the outputs.\<close>

lemma toggle_step_controller:
  "currentState (toggle_step cur i s) = currentState s"
  "GATE_REQUEST_A (toggle_step cur i s) = GATE_REQUEST_A s"
  "GATE_REQUEST_B (toggle_step cur i s) = GATE_REQUEST_B s"
  "led (toggle_step cur i s) = led s"
  by (simp_all add: toggle_step_def Let_def)

lemma fold_toggle_step_controller:
  "currentState (fold (toggle_step cur) js s) = currentState s
   \<and> GATE_REQUEST_A (fold (toggle_step cur) js s) = GATE_REQUEST_A s
   \<and> GATE_REQUEST_B (fold (toggle_step cur) js s) = GATE_REQUEST_B s
   \<and> led (fold (toggle_step cur) js s) = led s"
  by (induction js arbitrary: s) (simp_all add: toggle_step_controller)

lemma toggle_inputs_controller [simp]:
  "currentState (toggle_inputs p s) = currentState s"
  "GATE_REQUEST_A (toggle_inputs p s) = GATE_REQUEST_A s"
  "GATE_REQUEST_B (toggle_inputs p s) = GATE_REQUEST_B s"
  "led (toggle_inputs p s) = led s"
  unfolding toggle_inputs_def using fold_toggle_step_controller by blast+

section \<open>Results\<close>

text \<open>
  Support for C5: with both safety sensors clear at the top of the pass, a pass that
  starts in \<open>ST_BACK_ENTER\<close> or \<open>ST_FRONT_EXIT\<close> changes nothing (the \<open>switch\<close> has no
  case for them), and no pass enters \<open>ST_FRONT_EXIT\<close>.
\<close>

lemma mirror_states_have_no_case:
  "GATE_SAFETY_A (first_reads r) = HIGH \<Longrightarrow> GATE_SAFETY_B (first_reads r) = HIGH
   \<Longrightarrow> currentState c = ST_BACK_ENTER \<or> currentState c = ST_FRONT_EXIT
   \<Longrightarrow> loop r c = c"
  by (auto simp add: sketch_defs)

lemma mirror_states_have_no_case_sim:
  "flags q s ! 1 = HIGH \<Longrightarrow> flags q s ! 3 = HIGH
   \<Longrightarrow> currentState s = ST_BACK_ENTER \<or> currentState s = ST_FRONT_EXIT
   \<Longrightarrow> loop_sim q s = toggle_inputs q s"
  by (auto simp add: sketch_defs flags_def)

lemma front_exit_never_entered:
  "currentState (loop r c) = ST_FRONT_EXIT \<Longrightarrow> currentState c = ST_FRONT_EXIT"
  by (cases "currentState c") (auto simp add: sketch_defs split: if_splits)

lemma front_exit_never_entered_sim:
  "currentState (loop_sim q s) = ST_FRONT_EXIT \<Longrightarrow> currentState s = ST_FRONT_EXIT"
  by (cases "currentState s") (auto simp add: sketch_defs split: if_splits)

text \<open>
  Support for C1: the sequencing keeps the outputs exclusive as long as no call of
  \<open>operateGate\<close> finds a gate obstructed while that gate's output is \<open>HIGH\<close>. The
  invariant holds after \<open>setup()\<close>, excludes two open gates, and is kept by every such
  pass.
\<close>

lemma gates_as_state_exclusive:
  "gates_as_state c \<Longrightarrow> \<not> (GATE_REQUEST_A c = HIGH \<and> GATE_REQUEST_B c = HIGH)"
  by (cases "currentState c") (simp_all add: gates_as_state_def)

lemma gates_as_state_boot:
  "gates_as_state boot" "gates_as_state boot_sim"
  by (simp_all add: gates_as_state_def input_defs updateLEDs_def)

lemma gates_as_state_loop:
  assumes "gates_as_state c"
    and "GATE_SAFETY_A (gate_A_reads r) = LOW \<Longrightarrow> GATE_REQUEST_A c = LOW"
    and "GATE_SAFETY_B (gate_B_reads r) = LOW \<Longrightarrow> GATE_REQUEST_B c = LOW"
  shows "gates_as_state (loop r c)"
proof (cases "GATE_SAFETY_A (first_reads r) = LOW \<or> GATE_SAFETY_B (first_reads r) = LOW")
  case True
  with assms(2,3) show ?thesis
    by (auto simp add: sketch_defs gates_as_state_def)
next
  case False
  with assms show ?thesis
    by (cases "currentState c") (auto simp add: sketch_defs gates_as_state_def)
qed

lemma gates_as_state_loop_sim:
  assumes "gates_as_state s"
    and "flags q s ! 1 = LOW \<Longrightarrow> GATE_REQUEST_A s = LOW"
    and "flags q s ! 3 = LOW \<Longrightarrow> GATE_REQUEST_B s = LOW"
  shows "gates_as_state (loop_sim q s)"
proof (cases "flags q s ! 1 = LOW \<or> flags q s ! 3 = LOW")
  case True
  with assms(2,3) show ?thesis
    by (auto simp add: sketch_defs gates_as_state_def flags_def)
next
  case False
  with assms(1) show ?thesis
    by (cases "currentState s") (simp_all add: sketch_defs gates_as_state_def flags_def)
qed

text \<open>
  C1. Mutual exclusion does not hold on the code. From the state after \<open>setup()\<close>:
  a pass with only the front zone occupied opens gate A; a pass in which gate A's
  safety sensor reports obstruction while the middle zone is occupied leaves gate A's
  output \<open>HIGH\<close> (its close request is dropped by \<open>operateGate\<close>) and sets
  \<open>ST_MIDDLE_OCCUPIED\<close>; a pass with both safety sensors clear and gate A's moving
  flag \<open>HIGH\<close> then opens gate B. Both request outputs are \<open>HIGH\<close>. In the simulation
  sketch the safety flag is cleared by a second falling edge, so its trace has one more
  pass.
\<close>

theorem both_gates_open_after_veto:
  "GATE_REQUEST_A (run [settled\<lparr>PRESENCE_FRONT := LOW\<rparr>,
                        settled\<lparr>GATE_SAFETY_A := LOW, PRESENCE_MIDDLE := LOW\<rparr>,
                        all_high\<lparr>PRESENCE_MIDDLE := LOW\<rparr>] boot) = HIGH
   \<and> GATE_REQUEST_B (run [settled\<lparr>PRESENCE_FRONT := LOW\<rparr>,
                        settled\<lparr>GATE_SAFETY_A := LOW, PRESENCE_MIDDLE := LOW\<rparr>,
                        all_high\<lparr>PRESENCE_MIDDLE := LOW\<rparr>] boot) = HIGH
   \<and> GATE_REQUEST_A (run_sim [all_high\<lparr>PRESENCE_FRONT := LOW\<rparr>,
                        all_high\<lparr>PRESENCE_FRONT := LOW, GATE_SAFETY_A := LOW,
                                 PRESENCE_MIDDLE := LOW\<rparr>,
                        all_high\<lparr>PRESENCE_FRONT := LOW, PRESENCE_MIDDLE := LOW\<rparr>,
                        all_high\<lparr>PRESENCE_FRONT := LOW, GATE_SAFETY_A := LOW,
                                 PRESENCE_MIDDLE := LOW\<rparr>]
                      boot_sim) = HIGH
   \<and> GATE_REQUEST_B (run_sim [all_high\<lparr>PRESENCE_FRONT := LOW\<rparr>,
                        all_high\<lparr>PRESENCE_FRONT := LOW, GATE_SAFETY_A := LOW,
                                 PRESENCE_MIDDLE := LOW\<rparr>,
                        all_high\<lparr>PRESENCE_FRONT := LOW, PRESENCE_MIDDLE := LOW\<rparr>,
                        all_high\<lparr>PRESENCE_FRONT := LOW, GATE_SAFETY_A := LOW,
                                 PRESENCE_MIDDLE := LOW\<rparr>]
                      boot_sim) = HIGH"
  by (simp add: input_defs sketch_defs)

text \<open>
  C2, as the code has it. Take a pass whose opening test finds gate A's or gate B's
  safety sensor obstructed. The state it leaves is \<open>ST_MIDDLE_OCCUPIED\<close> when the
  middle zone is occupied; otherwise it is \<open>ST_SAFETY_LOCK\<close> when the second test of
  the safety branch still finds a sensor obstructed, and \<open>ST_IDLE\<close> when both sensors
  read clear by then (the simulation tests the same flags twice, so there it is always
  \<open>ST_SAFETY_LOCK\<close>). Each gate whose own safety sensor reads clear inside its call of
  \<open>operateGate\<close> has its request output written \<open>LOW\<close>; the output of a gate whose own
  sensor reads obstructed there keeps the level it had.
\<close>

theorem veto_closes_unobstructed_gates:
  "(GATE_SAFETY_A (first_reads r) = LOW \<or> GATE_SAFETY_B (first_reads r) = LOW
    \<longrightarrow> currentState (loop r c) =
          (if PRESENCE_MIDDLE (first_reads r) = LOW then ST_MIDDLE_OCCUPIED
           else if GATE_SAFETY_A (later_reads r) = LOW \<or> GATE_SAFETY_B (later_reads r) = LOW
             then ST_SAFETY_LOCK
           else ST_IDLE)
        \<and> GATE_REQUEST_A (loop r c) =
          (if GATE_SAFETY_A (gate_A_reads r) = LOW then GATE_REQUEST_A c else LOW)
        \<and> GATE_REQUEST_B (loop r c) =
          (if GATE_SAFETY_B (gate_B_reads r) = LOW then GATE_REQUEST_B c else LOW))
   \<and> (flags q s ! 1 = LOW \<or> flags q s ! 3 = LOW
    \<longrightarrow> currentState (loop_sim q s) =
          (if flags q s ! 2 = LOW then ST_MIDDLE_OCCUPIED else ST_SAFETY_LOCK)
        \<and> GATE_REQUEST_A (loop_sim q s) = (if flags q s ! 1 = LOW then GATE_REQUEST_A s else LOW)
        \<and> GATE_REQUEST_B (loop_sim q s) = (if flags q s ! 3 = LOW then GATE_REQUEST_B s else LOW))"
  by (auto simp add: sketch_defs flags_def)

text \<open>
  Witness: gate B is open in \<open>ST_BACK_ENTER\<close> when gate A's sensor reports obstruction
  and keeps doing so through the pass; gate B is closed, gate A stays closed, and the
  state is \<open>ST_SAFETY_LOCK\<close>.
\<close>

theorem veto_closes_unobstructed_gates_witness:
  "currentState (run [settled\<lparr>PRESENCE_BACK := LOW\<rparr>,
                      settled\<lparr>PRESENCE_BACK := LOW, GATE_SAFETY_A := LOW\<rparr>] boot)
     = ST_SAFETY_LOCK
   \<and> GATE_REQUEST_A (run [settled\<lparr>PRESENCE_BACK := LOW\<rparr>,
                      settled\<lparr>PRESENCE_BACK := LOW, GATE_SAFETY_A := LOW\<rparr>] boot) = LOW
   \<and> GATE_REQUEST_B (run [settled\<lparr>PRESENCE_BACK := LOW\<rparr>,
                      settled\<lparr>PRESENCE_BACK := LOW, GATE_SAFETY_A := LOW\<rparr>] boot) = LOW
   \<and> currentState (run_sim [settled\<lparr>PRESENCE_BACK := LOW\<rparr>,
                      settled\<lparr>PRESENCE_BACK := LOW, GATE_SAFETY_A := LOW\<rparr>] boot_sim)
     = ST_SAFETY_LOCK
   \<and> GATE_REQUEST_A (run_sim [settled\<lparr>PRESENCE_BACK := LOW\<rparr>,
                      settled\<lparr>PRESENCE_BACK := LOW, GATE_SAFETY_A := LOW\<rparr>] boot_sim) = LOW
   \<and> GATE_REQUEST_B (run_sim [settled\<lparr>PRESENCE_BACK := LOW\<rparr>,
                      settled\<lparr>PRESENCE_BACK := LOW, GATE_SAFETY_A := LOW\<rparr>] boot_sim) = LOW"
proof -
  let ?e = "settled\<lparr>PRESENCE_BACK := LOW\<rparr>"
  let ?v = "settled\<lparr>PRESENCE_BACK := LOW, GATE_SAFETY_A := LOW\<rparr>"
  have c1: "loop (steady ?e) boot = \<lparr>currentState = ST_BACK_ENTER, GATE_REQUEST_A = LOW,
      GATE_REQUEST_B = HIGH, led = (255, 165, 0)\<rparr>"
    by (simp add: input_defs sketch_defs)
  have s1: "GATE_REQUEST_A (loop_sim ?e boot_sim) = LOW
      \<and> GATE_REQUEST_B (loop_sim ?e boot_sim) = HIGH"
    by (simp add: input_defs sketch_defs)
  have r: "first_reads (steady ?v) = ?v" "gate_A_reads (steady ?v) = ?v"
      "gate_B_reads (steady ?v) = ?v" "later_reads (steady ?v) = ?v"
    by (simp_all add: steady_def)
  have h1: "GATE_SAFETY_A (first_reads (steady ?v)) = LOW
      \<or> GATE_SAFETY_B (first_reads (steady ?v)) = LOW"
    by (simp add: r)
  have p: "GATE_SAFETY_B settled = HIGH" "PRESENCE_MIDDLE settled = HIGH"
    by (simp_all add: input_defs)
  have f: "flags ?v (loop_sim ?e boot_sim) = [HIGH, LOW, HIGH, HIGH, LOW, LOW, LOW]"
    by (simp add: input_defs sketch_defs)
  then have h2: "flags ?v (loop_sim ?e boot_sim) ! 1 = LOW
      \<or> flags ?v (loop_sim ?e boot_sim) ! 3 = LOW"
    by simp
  from veto_closes_unobstructed_gates
    [of "steady ?v" "loop (steady ?e) boot" ?v "loop_sim ?e boot_sim"] h1 h2
  have "currentState (loop (steady ?v) (loop (steady ?e) boot)) = ST_SAFETY_LOCK
      \<and> GATE_REQUEST_A (loop (steady ?v) (loop (steady ?e) boot)) = LOW
      \<and> GATE_REQUEST_B (loop (steady ?v) (loop (steady ?e) boot)) = LOW
      \<and> currentState (loop_sim ?v (loop_sim ?e boot_sim)) = ST_SAFETY_LOCK
      \<and> GATE_REQUEST_A (loop_sim ?v (loop_sim ?e boot_sim)) = LOW
      \<and> GATE_REQUEST_B (loop_sim ?v (loop_sim ?e boot_sim)) = LOW"
    by (simp add: c1 s1 f p r)
  then show ?thesis
    by (simp add: run_def run_sim_def)
qed

text \<open>
  C2 as stated fails: gate A is open in \<open>ST_FRONT_ENTER\<close> when its own safety sensor
  reports obstruction; after that pass the state is \<open>ST_SAFETY_LOCK\<close> and gate A's
  request output is still \<open>HIGH\<close>.
\<close>

theorem obstructed_gate_left_open:
  "GATE_REQUEST_A (run [settled\<lparr>PRESENCE_FRONT := LOW\<rparr>,
                        settled\<lparr>PRESENCE_FRONT := LOW, GATE_SAFETY_A := LOW\<rparr>] boot) = HIGH
   \<and> currentState (run [settled\<lparr>PRESENCE_FRONT := LOW\<rparr>,
                        settled\<lparr>PRESENCE_FRONT := LOW, GATE_SAFETY_A := LOW\<rparr>] boot)
     = ST_SAFETY_LOCK
   \<and> GATE_REQUEST_A (run_sim [settled\<lparr>PRESENCE_FRONT := LOW\<rparr>,
                        settled\<lparr>PRESENCE_FRONT := LOW, GATE_SAFETY_A := LOW\<rparr>] boot_sim) = HIGH
   \<and> currentState (run_sim [settled\<lparr>PRESENCE_FRONT := LOW\<rparr>,
                        settled\<lparr>PRESENCE_FRONT := LOW, GATE_SAFETY_A := LOW\<rparr>] boot_sim)
     = ST_SAFETY_LOCK"
  by (simp add: input_defs sketch_defs)

text \<open>
  C3, as the code has it. A call of \<open>operateGate\<close> with \<open>open = true\<close> while the
  addressed gate's own safety sensor reports obstruction returns before any pin is
  written: the gate outputs, the sequencer state and the indicator are all as before.
  The function returns nothing, so no outcome of the request reaches the caller. Any
  non-zero gate number addresses gate B.
\<close>

theorem open_rejected_while_obstructed:
  "((gate = 0 \<and> GATE_SAFETY_A p = LOW) \<or> (gate \<noteq> 0 \<and> GATE_SAFETY_B p = LOW)
      \<longrightarrow> operateGate gate True p c = c)
   \<and> ((gate' = 0 \<and> b s ! 1 = LOW) \<or> (gate' \<noteq> 0 \<and> b s ! 3 = LOW)
      \<longrightarrow> operateGate_sim gate' True s = s)"
  by (auto simp add: operateGate_def operateGate_sim_def)

theorem open_rejected_while_obstructed_witness:
  "operateGate 0 True (settled\<lparr>GATE_SAFETY_A := LOW\<rparr>) boot = boot
   \<and> operateGate_sim 0 True (loop_sim (settled\<lparr>GATE_SAFETY_A := LOW\<rparr>) boot_sim)
       = loop_sim (settled\<lparr>GATE_SAFETY_A := LOW\<rparr>) boot_sim"
proof -
  let ?p = "settled\<lparr>GATE_SAFETY_A := LOW\<rparr>"
  let ?s = "loop_sim ?p boot_sim"
  have h1: "((0::8 word) = 0 \<and> GATE_SAFETY_A ?p = LOW)
      \<or> ((0::8 word) \<noteq> 0 \<and> GATE_SAFETY_B ?p = LOW)"
    by (simp add: input_defs)
  have "b ?s ! 1 = LOW"
    by (simp add: input_defs sketch_defs)
  then have h2: "((0::8 word) = 0 \<and> b ?s ! 1 = LOW) \<or> ((0::8 word) \<noteq> 0 \<and> b ?s ! 3 = LOW)"
    by simp
  from open_rejected_while_obstructed [of 0 ?p boot 0 ?s] h1 h2
  show ?thesis by blast
qed

text \<open>
  C3 as stated fails in its last part. With gate A's output already \<open>HIGH\<close>, an open
  request that is rejected (gate A obstructed) and one that is carried out (gate A
  clear) both hand back exactly the state they were given: what the caller gets does
  not tell a rejected request from a performed one.
\<close>

theorem rejected_open_not_reported:
  "operateGate 0 True (settled\<lparr>GATE_SAFETY_A := LOW\<rparr>) (boot\<lparr>GATE_REQUEST_A := HIGH\<rparr>)
     = boot\<lparr>GATE_REQUEST_A := HIGH\<rparr>
   \<and> operateGate 0 True settled (boot\<lparr>GATE_REQUEST_A := HIGH\<rparr>)
     = boot\<lparr>GATE_REQUEST_A := HIGH\<rparr>
   \<and> operateGate_sim 0 True
       (boot_sim\<lparr>GATE_REQUEST_A := HIGH, b := [HIGH, LOW, HIGH, HIGH, HIGH, HIGH, HIGH]\<rparr>)
     = boot_sim\<lparr>GATE_REQUEST_A := HIGH, b := [HIGH, LOW, HIGH, HIGH, HIGH, HIGH, HIGH]\<rparr>
   \<and> operateGate_sim 0 True (boot_sim\<lparr>GATE_REQUEST_A := HIGH\<rparr>)
     = boot_sim\<lparr>GATE_REQUEST_A := HIGH\<rparr>"
  by (simp add: input_defs operateGate_def operateGate_sim_def updateLEDs_def)

text \<open>
  C4, as the code has it. A call of \<open>operateGate\<close> with \<open>open = false\<close> writes \<open>LOW\<close>
  to the addressed gate's request output when that gate's own safety sensor is clear;
  while the sensor reports obstruction the call returns early and changes nothing, as
  it does for an open request.
\<close>

theorem close_carried_out_when_clear:
  "(gate = 0 \<longrightarrow> operateGate gate False p c =
        (if GATE_SAFETY_A p = LOW then c else c\<lparr>GATE_REQUEST_A := LOW\<rparr>))
   \<and> (gate \<noteq> 0 \<longrightarrow> operateGate gate False p c =
        (if GATE_SAFETY_B p = LOW then c else c\<lparr>GATE_REQUEST_B := LOW\<rparr>))
   \<and> (gate = 0 \<longrightarrow> operateGate_sim gate False s =
        (if b s ! 1 = LOW then s else s\<lparr>GATE_REQUEST_A := LOW\<rparr>))
   \<and> (gate \<noteq> 0 \<longrightarrow> operateGate_sim gate False s =
        (if b s ! 3 = LOW then s else s\<lparr>GATE_REQUEST_B := LOW\<rparr>))"
  by (simp add: operateGate_def operateGate_sim_def)

theorem close_carried_out_when_clear_witness:
  "GATE_REQUEST_A (operateGate 0 False settled (loop (steady (settled\<lparr>PRESENCE_FRONT := LOW\<rparr>)) boot))
     = LOW
   \<and> GATE_REQUEST_B (operateGate 1 False settled (loop (steady (settled\<lparr>PRESENCE_BACK := LOW\<rparr>)) boot))
     = LOW
   \<and> GATE_REQUEST_A
       (operateGate_sim 0 False (loop_sim (settled\<lparr>PRESENCE_FRONT := LOW\<rparr>) boot_sim)) = LOW
   \<and> GATE_REQUEST_B
       (operateGate_sim 1 False (loop_sim (settled\<lparr>PRESENCE_BACK := LOW\<rparr>) boot_sim)) = LOW"
proof -
  let ?f = "settled\<lparr>PRESENCE_FRONT := LOW\<rparr>"
  let ?k = "settled\<lparr>PRESENCE_BACK := LOW\<rparr>"
  have g: "(0::8 word) = 0" "(1::8 word) \<noteq> 0"
    by simp_all
  have p: "GATE_SAFETY_A settled = HIGH" "GATE_SAFETY_B settled = HIGH"
    by (simp_all add: input_defs)
  have s: "b (loop_sim ?f boot_sim) ! 1 = HIGH" "b (loop_sim ?k boot_sim) ! 3 = HIGH"
    by (simp_all add: input_defs sketch_defs)
  from close_carried_out_when_clear [of 0 settled "loop (steady ?f) boot" "loop_sim ?f boot_sim"] g p s
  have a: "GATE_REQUEST_A (operateGate 0 False settled (loop (steady ?f) boot)) = LOW
      \<and> GATE_REQUEST_A (operateGate_sim 0 False (loop_sim ?f boot_sim)) = LOW"
    by simp
  from close_carried_out_when_clear [of 1 settled "loop (steady ?k) boot" "loop_sim ?k boot_sim"] g p s
  have "GATE_REQUEST_B (operateGate 1 False settled (loop (steady ?k) boot)) = LOW
      \<and> GATE_REQUEST_B (operateGate_sim 1 False (loop_sim ?k boot_sim)) = LOW"
    by simp
  with a show ?thesis by blast
qed

text \<open>
  C4 as stated fails: gate A is open (\<open>ST_FRONT_ENTER\<close>) and its own safety sensor
  reports obstruction; the close request leaves gate A's output \<open>HIGH\<close>. This is the
  call the safety branch of \<open>loop()\<close> makes in that situation.
\<close>

theorem close_dropped_while_obstructed:
  "GATE_REQUEST_A (operateGate 0 False (settled\<lparr>GATE_SAFETY_A := LOW\<rparr>)
                     (loop (steady (settled\<lparr>PRESENCE_FRONT := LOW\<rparr>)) boot)) = HIGH
   \<and> GATE_REQUEST_A (operateGate_sim 0 False
                     (toggle_inputs (settled\<lparr>PRESENCE_FRONT := LOW, GATE_SAFETY_A := LOW\<rparr>)
                        (loop_sim (settled\<lparr>PRESENCE_FRONT := LOW\<rparr>) boot_sim))) = HIGH"
  by (simp add: input_defs sketch_defs)

text \<open>
  C5. The transition graph is not closed on the code. From the state after \<open>setup()\<close>,
  a pass with only the back zone occupied opens gate B and enters \<open>ST_BACK_ENTER\<close>;
  the next pass, with gate B not moving, the middle zone occupied and no obstruction,
  changes nothing: the state is still \<open>ST_BACK_ENTER\<close> and gate B's output is still
  \<open>HIGH\<close>, where the claim has gate B closed and \<open>ST_MIDDLE_OCCUPIED\<close>.
\<close>

theorem back_enter_has_no_transition:
  "run [settled\<lparr>PRESENCE_BACK := LOW\<rparr>, settled\<lparr>PRESENCE_MIDDLE := LOW\<rparr>] boot
     = \<lparr>currentState = ST_BACK_ENTER, GATE_REQUEST_A = LOW, GATE_REQUEST_B = HIGH,
        led = (255, 165, 0)\<rparr>
   \<and> currentState (run_sim [settled\<lparr>PRESENCE_BACK := LOW\<rparr>,
                           settled\<lparr>PRESENCE_BACK := LOW, PRESENCE_MIDDLE := LOW\<rparr>] boot_sim)
     = ST_BACK_ENTER
   \<and> GATE_REQUEST_B (run_sim [settled\<lparr>PRESENCE_BACK := LOW\<rparr>,
                           settled\<lparr>PRESENCE_BACK := LOW, PRESENCE_MIDDLE := LOW\<rparr>] boot_sim)
     = HIGH"
  by (simp add: input_defs sketch_defs)

text \<open>
  C6. The entry trace stops at its third step on the code. From the state after
  \<open>setup()\<close>: only front occupied gives \<open>ST_FRONT_ENTER\<close> with gate A open; front and
  middle occupied with gate A not moving gives \<open>ST_MIDDLE_OCCUPIED\<close> with gate A
  closed; then middle occupied with gate A not moving changes nothing, where the claim
  has gate B opened and \<open>ST_BACK_EXIT\<close>: the code opens gate B only while gate A's
  moving input is \<open>HIGH\<close>. In the simulation sketch one more pass is needed to clear the
  front flag by a second falling edge; the last conjunct gives the flags of its final
  pass (middle occupied, gate A not moving).
\<close>

theorem entry_trace_stops_in_middle:
  "run [settled\<lparr>PRESENCE_FRONT := LOW\<rparr>] boot
     = \<lparr>currentState = ST_FRONT_ENTER, GATE_REQUEST_A = HIGH, GATE_REQUEST_B = LOW,
        led = (0, 0, 255)\<rparr>
   \<and> run [settled\<lparr>PRESENCE_FRONT := LOW\<rparr>,
          settled\<lparr>PRESENCE_FRONT := LOW, PRESENCE_MIDDLE := LOW\<rparr>] boot
     = \<lparr>currentState = ST_MIDDLE_OCCUPIED, GATE_REQUEST_A = LOW, GATE_REQUEST_B = LOW,
        led = (255, 255, 0)\<rparr>
   \<and> run [settled\<lparr>PRESENCE_FRONT := LOW\<rparr>,
          settled\<lparr>PRESENCE_FRONT := LOW, PRESENCE_MIDDLE := LOW\<rparr>,
          settled\<lparr>PRESENCE_MIDDLE := LOW\<rparr>] boot
     = \<lparr>currentState = ST_MIDDLE_OCCUPIED, GATE_REQUEST_A = LOW, GATE_REQUEST_B = LOW,
        led = (255, 255, 0)\<rparr>
   \<and> currentState (run_sim [settled\<lparr>PRESENCE_FRONT := LOW\<rparr>,
          settled\<lparr>PRESENCE_FRONT := LOW, PRESENCE_MIDDLE := LOW\<rparr>,
          settled\<lparr>PRESENCE_MIDDLE := LOW\<rparr>,
          settled\<lparr>PRESENCE_FRONT := LOW, PRESENCE_MIDDLE := LOW\<rparr>] boot_sim)
     = ST_MIDDLE_OCCUPIED
   \<and> GATE_REQUEST_B (run_sim [settled\<lparr>PRESENCE_FRONT := LOW\<rparr>,
          settled\<lparr>PRESENCE_FRONT := LOW, PRESENCE_MIDDLE := LOW\<rparr>,
          settled\<lparr>PRESENCE_MIDDLE := LOW\<rparr>,
          settled\<lparr>PRESENCE_FRONT := LOW, PRESENCE_MIDDLE := LOW\<rparr>] boot_sim)
     = LOW
   \<and> flags (settled\<lparr>PRESENCE_FRONT := LOW, PRESENCE_MIDDLE := LOW\<rparr>)
        (run_sim [settled\<lparr>PRESENCE_FRONT := LOW\<rparr>,
          settled\<lparr>PRESENCE_FRONT := LOW, PRESENCE_MIDDLE := LOW\<rparr>,
          settled\<lparr>PRESENCE_MIDDLE := LOW\<rparr>] boot_sim)
     = [HIGH, HIGH, LOW, HIGH, HIGH, LOW, LOW]"
  by (simp add: input_defs sketch_defs)

text \<open>
  C7, as the code has it. \<open>ST_SAFETY_LOCK\<close> is the state a pass of the safety branch
  leaves when the middle zone is unoccupied. A pass that starts in it and finds both
  safety sensors clear returns the state to \<open>ST_IDLE\<close>. The level-sensing sketch reads
  the sensors twice on the way (the opening test and the test of the \<open>ST_SAFETY_LOCK\<close>
  case): the state is \<open>ST_IDLE\<close> when both reads are clear, and stays \<open>ST_SAFETY_LOCK\<close>
  when the second is not.
\<close>

theorem safety_lock_returns_to_idle:
  "(currentState c = ST_SAFETY_LOCK
      \<and> GATE_SAFETY_A (first_reads r) = HIGH \<and> GATE_SAFETY_B (first_reads r) = HIGH
    \<longrightarrow> currentState (loop r c) =
          (if GATE_SAFETY_A (later_reads r) = HIGH \<and> GATE_SAFETY_B (later_reads r) = HIGH
           then ST_IDLE else ST_SAFETY_LOCK))
   \<and> (currentState s = ST_SAFETY_LOCK \<and> flags q s ! 1 = HIGH \<and> flags q s ! 3 = HIGH
    \<longrightarrow> currentState (loop_sim q s) = ST_IDLE)"
  by (simp add: sketch_defs flags_def)

text \<open>
  Witness: gate B's sensor reports obstruction with the middle zone free, then clears.
  In the simulation sketch the safety flag clears on the second falling edge of its pin,
  so the pass before the clearing one is itself a pass with the flag still set.
\<close>

theorem safety_lock_returns_to_idle_witness:
  "currentState (run [settled\<lparr>GATE_SAFETY_B := LOW\<rparr>] boot) = ST_SAFETY_LOCK
   \<and> currentState (run [settled\<lparr>GATE_SAFETY_B := LOW\<rparr>, settled] boot) = ST_IDLE
   \<and> currentState (run_sim [settled\<lparr>GATE_SAFETY_B := LOW\<rparr>, settled] boot_sim)
       = ST_SAFETY_LOCK
   \<and> currentState (run_sim [settled\<lparr>GATE_SAFETY_B := LOW\<rparr>, settled,
                            settled\<lparr>GATE_SAFETY_B := LOW\<rparr>] boot_sim) = ST_IDLE"
proof -
  let ?v = "settled\<lparr>GATE_SAFETY_B := LOW\<rparr>"
  let ?c = "loop (steady ?v) boot"
  let ?s = "loop_sim settled (loop_sim ?v boot_sim)"
  have c: "currentState ?c = ST_SAFETY_LOCK"
    by (simp add: input_defs sketch_defs)
  have s: "currentState ?s = ST_SAFETY_LOCK"
    by (simp add: input_defs sketch_defs)
  have h: "GATE_SAFETY_A (first_reads (steady settled)) = HIGH"
      "GATE_SAFETY_B (first_reads (steady settled)) = HIGH"
      "GATE_SAFETY_A (later_reads (steady settled)) = HIGH"
      "GATE_SAFETY_B (later_reads (steady settled)) = HIGH"
    by (simp_all add: input_defs)
  have f: "flags ?v ?s = [HIGH, HIGH, HIGH, HIGH, HIGH, LOW, LOW]"
    by (simp add: input_defs sketch_defs)
  from safety_lock_returns_to_idle [of ?c "steady settled" ?s ?v] c s h
  have "currentState (loop (steady settled) ?c) = ST_IDLE
      \<and> currentState (loop_sim ?v ?s) = ST_IDLE"
    by (simp add: f)
  with c s show ?thesis
    by (simp add: run_def run_sim_def)
qed

text \<open>
  C7 as stated fails: after a pass that finds gate B obstructed and the middle zone
  occupied, a pass with both safety sensors clear (middle still occupied, gate A not
  moving) does not end in \<open>ST_IDLE\<close>. The last conjunct gives the flags of the
  simulation's final pass: both safety flags clear.
\<close>

theorem veto_in_middle_does_not_return_to_idle:
  "currentState (run [settled\<lparr>GATE_SAFETY_B := LOW, PRESENCE_MIDDLE := LOW\<rparr>,
                      settled\<lparr>PRESENCE_MIDDLE := LOW\<rparr>] boot) \<noteq> ST_IDLE
   \<and> currentState (run_sim [settled\<lparr>GATE_SAFETY_B := LOW, PRESENCE_MIDDLE := LOW\<rparr>,
                      settled\<lparr>PRESENCE_MIDDLE := LOW\<rparr>,
                      settled\<lparr>GATE_SAFETY_B := LOW, PRESENCE_MIDDLE := LOW\<rparr>] boot_sim)
       \<noteq> ST_IDLE
   \<and> flags (settled\<lparr>GATE_SAFETY_B := LOW, PRESENCE_MIDDLE := LOW\<rparr>)
        (run_sim [settled\<lparr>GATE_SAFETY_B := LOW, PRESENCE_MIDDLE := LOW\<rparr>,
                      settled\<lparr>PRESENCE_MIDDLE := LOW\<rparr>] boot_sim)
     = [HIGH, HIGH, LOW, HIGH, HIGH, LOW, LOW]"
  by (simp add: input_defs sketch_defs)







text \<open>
  C10. After \<open>setup()\<close> and before the first pass of \<open>loop()\<close>, both gate request
  outputs are \<open>LOW\<close> (closed) and the sequencer state is \<open>ST_IDLE\<close>, whatever the
  outputs and the strip were at power-on. This holds in both sketches.
\<close>

theorem setup_initial_state:
  "currentState (setup_board (power_on x y col)) = ST_IDLE
   \<and> GATE_REQUEST_A (setup_board (power_on x y col)) = LOW
   \<and> GATE_REQUEST_B (setup_board (power_on x y col)) = LOW
   \<and> currentState (setup_board (power_on_sim x y col)) = ST_IDLE
   \<and> GATE_REQUEST_A (setup_board (power_on_sim x y col)) = LOW
   \<and> GATE_REQUEST_B (setup_board (power_on_sim x y col)) = LOW"
  by (simp add: setup_board_def power_on_def power_on_sim_def updateLEDs_def)

end
